theory Spec2Isabelle
  imports Complex_Main "HOL-Library.Log_Nat"
begin

section \<open>Python values as the pipeline sees them\<close>

text \<open>
  The upstream API answers with JSON, which \<^verbatim>\<open>response.json()\<close> turns into Python
  objects: \<^verbatim>\<open>None\<close>, \<^verbatim>\<open>bool\<close>, unbounded \<^verbatim>\<open>int\<close>, \<^verbatim>\<open>float\<close>, \<^verbatim>\<open>str\<close>,
  \<^verbatim>\<open>list\<close> and \<^verbatim>\<open>dict\<close>. A Python float is an IEEE double: a finite value (kept here
  by its exact rational value; rounding of arithmetic is not modelled, and the two
  zeros are one value), one of the two infinities, or NaN. A string is a list of
  characters with code points below 256.
\<close>

datatype pyfloat = Fin rat | PInf | NInf | NaN

datatype json =
    JNull
  | JBool bool
  | JInt int
  | JFloat pyfloat
  | JStr string
  | JArr "json list"
  | JObj "(string \<times> json) list"

text \<open>
  A naive local date-time, as \<^verbatim>\<open>datetime.now()\<close> and \<^verbatim>\<open>datetime.fromtimestamp\<close>
  return it, counted in microseconds.
\<close>

datatype datetime = Datetime int

text \<open>The exceptions the code can meet. \<open>ApiError c\<close> is the plain \<^verbatim>\<open>Exception\<close>
  that \<^verbatim>\<open>extract\<close> raises itself for status code \<open>c\<close>.\<close>

datatype pyexc =
    ValueError
  | TypeError
  | OverflowError
  | OSError
  | IndexError
  | KeyError
  | AttributeError
  | JSONDecodeError
  | ApiError int

definition bind_exc :: "pyexc + 'a \<Rightarrow> ('a \<Rightarrow> pyexc + 'b) \<Rightarrow> pyexc + 'b" where
  "bind_exc m f = (case m of Inl e \<Rightarrow> Inl e | Inr x \<Rightarrow> f x)"

text \<open>
  What the code takes from the Python runtime and the platform without defining it:
  the C library's local-time conversion behind \<^verbatim>\<open>datetime.fromtimestamp\<close> (for a
  whole number of seconds and for a fractional one; it may raise, for instance
  \<^verbatim>\<open>ValueError\<close> for a year beyond 9999 or \<^verbatim>\<open>OSError\<close> when \<^verbatim>\<open>localtime\<close>
  fails), the parser behind \<^verbatim>\<open>float(str)\<close> (\<open>None\<close> is its \<^verbatim>\<open>ValueError\<close>), and the
  text \<^verbatim>\<open>str\<close> gives for a float, a list or a dict.
\<close>

record platform =
  localtime_int :: "int \<Rightarrow> pyexc + datetime"
  localtime_float :: "rat \<Rightarrow> pyexc + datetime"
  float_of_str :: "string \<Rightarrow> pyfloat option"
  str_other :: "json \<Rightarrow> string"

text \<open>
  The wall clock: reading number \<open>k\<close> of a run is \<open>clk k\<close>. Every call of
  \<^verbatim>\<open>datetime.now()\<close> takes the next reading, so the functions that may call it take the
  number of readings made so far and return the new number.
\<close>

type_synonym clock = "nat \<Rightarrow> datetime"

subsection \<open>Truthiness, \<^verbatim>\<open>str\<close>, \<^verbatim>\<open>strip\<close>, subscripts\<close>

fun truthy :: "json \<Rightarrow> bool" where
  "truthy JNull = False"
| "truthy (JBool b) = b"
| "truthy (JInt n) = (n \<noteq> 0)"
| "truthy (JFloat f) = (f \<noteq> Fin 0)"
| "truthy (JStr s) = (s \<noteq> [])"
| "truthy (JArr xs) = (xs \<noteq> [])"
| "truthy (JObj kv) = (kv \<noteq> [])"

definition digit_char :: "nat \<Rightarrow> char" where
  "digit_char d = char_of (48 + d)"

function show_nat :: "nat \<Rightarrow> string" where
  "show_nat n = (if n < 10 then [digit_char n] else show_nat (n div 10) @ [digit_char (n mod 10)])"
  by pat_completeness auto
termination
  by (relation "measure id") auto

definition show_int :: "int \<Rightarrow> string" where
  "show_int i = (if i < 0 then CHR ''-'' # show_nat (nat (- i)) else show_nat (nat i))"

fun str_of :: "platform \<Rightarrow> json \<Rightarrow> string" where
  "str_of P (JStr s) = s"
| "str_of P (JInt n) = show_int n"
| "str_of P (JBool b) = (if b then ''True'' else ''False'')"
| "str_of P JNull = ''None''"
| "str_of P v = str_other P v"

text \<open>\<^verbatim>\<open>str.isspace\<close> on the code points below 256: tab to carriage return, the four
  separators \<open>0x1c\<close> to \<open>0x1f\<close>, the space, \<open>0x85\<close> and \<open>0xa0\<close>.\<close>

definition is_space :: "char \<Rightarrow> bool" where
  "is_space c = (let n = (of_char c :: nat) in
     (9 \<le> n \<and> n \<le> 13) \<or> (28 \<le> n \<and> n \<le> 32) \<or> n = 133 \<or> n = 160)"

definition strip :: "string \<Rightarrow> string" where
  "strip s = rev (dropWhile is_space (rev (dropWhile is_space s)))"

text \<open>\<^verbatim>\<open>state[i]\<close> for a constant index \<open>i \<ge> 0\<close>: a list or a string raises
  \<^verbatim>\<open>IndexError\<close> out of range, a dict (whose JSON keys are strings) raises
  \<^verbatim>\<open>KeyError\<close>, and the other values cannot be subscripted.\<close>

fun subscript :: "json \<Rightarrow> nat \<Rightarrow> pyexc + json" where
  "subscript (JArr xs) i = (if i < length xs then Inr (xs ! i) else Inl IndexError)"
| "subscript (JStr s) i = (if i < length s then Inr (JStr [s ! i]) else Inl IndexError)"
| "subscript (JObj kv) i = Inl KeyError"
| "subscript v i = Inl TypeError"

section \<open>Field coercion\<close>

text \<open>
  \<^verbatim>\<open>float(n)\<close> for an int rounds to the nearest double, ties to even, and raises
  \<^verbatim>\<open>OverflowError\<close> when the rounded value is beyond the largest double.
\<close>

definition float_of_int :: "int \<Rightarrow> pyexc + pyfloat" where
  "float_of_int n =
     (let a = \<bar>n\<bar>; e = bitlen a - 53 in
      if e \<le> 0 then Inr (Fin (of_int n))
      else
        (let q = a div 2 ^ nat e;
             r = a mod 2 ^ nat e;
             half = 2 ^ nat (e - 1);
             q' = (if half < r \<or> (r = half \<and> odd q) then q + 1 else q);
             m = q' * 2 ^ nat e
         in if 2 ^ 1024 \<le> m then Inl OverflowError else Inr (Fin (of_int (sgn n * m)))))"

text \<open>The builtin \<^verbatim>\<open>float(value)\<close>.\<close>

fun py_float :: "platform \<Rightarrow> json \<Rightarrow> pyexc + pyfloat" where
  "py_float P (JFloat f) = Inr f"
| "py_float P (JInt n) = float_of_int n"
| "py_float P (JBool b) = Inr (Fin (if b then 1 else 0))"
| "py_float P (JStr s) = (case float_of_str P s of None \<Rightarrow> Inl ValueError | Some f \<Rightarrow> Inr f)"
| "py_float P v = Inl TypeError"

text \<open>The clause \<^verbatim>\<open>except (ValueError, TypeError)\<close>.\<close>

definition caught :: "pyexc \<Rightarrow> bool" where
  "caught e = (e = ValueError \<or> e = TypeError \<or> e = JSONDecodeError)"

definition safe_float_convert :: "platform \<Rightarrow> json \<Rightarrow> pyexc + pyfloat" where
  "safe_float_convert P v =
     (if v = JNull then Inr (Fin 0)
      else (case py_float P v of
              Inr f \<Rightarrow> Inr f
            | Inl e \<Rightarrow> if caught e then Inr (Fin 0) else Inl e))"

definition safe_bool_convert :: "json \<Rightarrow> bool" where
  "safe_bool_convert v = (if v \<noteq> JNull then truthy v else False)"

text \<open>
  \<^verbatim>\<open>datetime.fromtimestamp\<close>: the argument is turned into a \<^verbatim>\<open>time_t\<close> (64 bits)
  first, which raises \<^verbatim>\<open>OverflowError\<close> out of range and for an infinity, and
  \<^verbatim>\<open>ValueError\<close> for NaN; then the platform converts it to local time.
\<close>

definition in_time_t :: "int \<Rightarrow> bool" where
  "in_time_t n = (- (2 ^ 63) \<le> n \<and> n < 2 ^ 63)"

fun fromtimestamp :: "platform \<Rightarrow> json \<Rightarrow> pyexc + datetime" where
  "fromtimestamp P (JInt n) = (if in_time_t n then localtime_int P n else Inl OverflowError)"
| "fromtimestamp P (JBool b) = localtime_int P (if b then 1 else 0)"
| "fromtimestamp P (JFloat (Fin q)) =
     (if in_time_t (if q < 0 then \<lceil>q\<rceil> else \<lfloor>q\<rfloor>) then localtime_float P q else Inl OverflowError)"
| "fromtimestamp P (JFloat NaN) = Inl ValueError"
| "fromtimestamp P (JFloat f) = Inl OverflowError"
| "fromtimestamp P v = Inl TypeError"

definition safe_timestamp_convert ::
  "platform \<Rightarrow> clock \<Rightarrow> nat \<Rightarrow> json \<Rightarrow> pyexc + (datetime \<times> nat)" where
  "safe_timestamp_convert P clk k v =
     (if truthy v
      then (case fromtimestamp P v of
              Inr t \<Rightarrow> Inr (t, k)
            | Inl e \<Rightarrow> if caught e then Inr (clk k, Suc k) else Inl e)
      else Inr (clk k, Suc k))"

section \<open>The typed flight record\<close>

text \<open>
  One row of the schema of \<^verbatim>\<open>OpenSkyETL.__init__\<close>. A column can hold null, which
  is \<open>None\<close> here, so that the null handling of \<^verbatim>\<open>transform\<close> has something to
  act on; \<^verbatim>\<open>extract\<close> itself fills every field.
\<close>

record flight =
  icao24 :: "string option"
  callsign :: "string option"
  origin_country :: "string option"
  time_position :: "datetime option"
  last_contact :: "datetime option"
  longitude :: "pyfloat option"
  latitude :: "pyfloat option"
  baro_altitude :: "pyfloat option"
  on_ground :: "bool option"
  velocity :: "pyfloat option"
  true_track :: "pyfloat option"
  vertical_rate :: "pyfloat option"
  geo_altitude :: "pyfloat option"
  squawk :: "string option"
  spi :: "bool option"
  position_source :: "string option"
  ingestion_time :: "datetime option"

section \<open>Extract\<close>

text \<open>The expression \<^verbatim>\<open>str(x) if x else 'UNKNOWN'\<close>, and the same with \<^verbatim>\<open>.strip()\<close>
  for the callsign.\<close>

definition str_or_unknown :: "platform \<Rightarrow> json \<Rightarrow> string" where
  "str_or_unknown P v = (if truthy v then str_of P v else ''UNKNOWN'')"

definition callsign_of :: "platform \<Rightarrow> json \<Rightarrow> string" where
  "callsign_of P v = (if truthy v then strip (str_of P v) else ''UNKNOWN'')"

text \<open>
  The body of the loop of \<^verbatim>\<open>extract\<close> for one element \<open>state\<close> of the states array:
  \<open>Inr (None, k)\<close> is the \<^verbatim>\<open>continue\<close>, \<open>Inr (Some f, k')\<close> the record appended,
  \<open>Inl e\<close> an exception that leaves \<^verbatim>\<open>extract\<close>. The fields are computed in the order
  of the dict display, so the first exception in that order is the one raised.
  \<open>t\<close> is \<^verbatim>\<open>current_time\<close>, \<open>k\<close> the number of clock readings made so far.
\<close>

definition make_flight ::
  "platform \<Rightarrow> clock \<Rightarrow> datetime \<Rightarrow> nat \<Rightarrow> json \<Rightarrow> pyexc + (flight option \<times> nat)" where
  "make_flight P clk t k state =
     bind_exc (subscript state 0) (\<lambda>s0.
     if \<not> truthy s0 then Inr (None, k) else
     bind_exc (subscript state 1) (\<lambda>s1.
     bind_exc (subscript state 2) (\<lambda>s2.
     bind_exc (subscript state 3) (\<lambda>s3.
     bind_exc (safe_timestamp_convert P clk k s3) (\<lambda>(tp, k1).
     bind_exc (subscript state 4) (\<lambda>s4.
     bind_exc (safe_timestamp_convert P clk k1 s4) (\<lambda>(lc, k2).
     bind_exc (subscript state 5) (\<lambda>s5.
     bind_exc (safe_float_convert P s5) (\<lambda>lon.
     bind_exc (subscript state 6) (\<lambda>s6.
     bind_exc (safe_float_convert P s6) (\<lambda>lat.
     bind_exc (subscript state 7) (\<lambda>s7.
     bind_exc (safe_float_convert P s7) (\<lambda>baro.
     bind_exc (subscript state 8) (\<lambda>s8.
     bind_exc (subscript state 9) (\<lambda>s9.
     bind_exc (safe_float_convert P s9) (\<lambda>vel.
     bind_exc (subscript state 10) (\<lambda>s10.
     bind_exc (safe_float_convert P s10) (\<lambda>trk.
     bind_exc (subscript state 11) (\<lambda>s11.
     bind_exc (safe_float_convert P s11) (\<lambda>vr.
     bind_exc (subscript state 13) (\<lambda>s13.
     bind_exc (safe_float_convert P s13) (\<lambda>geo.
     bind_exc (subscript state 14) (\<lambda>s14.
     bind_exc (subscript state 15) (\<lambda>s15.
     bind_exc (subscript state 16) (\<lambda>s16.
     Inr (Some \<lparr>
       icao24 = Some (str_of P s0),
       callsign = Some (callsign_of P s1),
       origin_country = Some (str_or_unknown P s2),
       time_position = Some tp,
       last_contact = Some lc,
       longitude = Some lon,
       latitude = Some lat,
       baro_altitude = Some baro,
       on_ground = Some (safe_bool_convert s8),
       velocity = Some vel,
       true_track = Some trk,
       vertical_rate = Some vr,
       geo_altitude = Some geo,
       squawk = Some (str_or_unknown P s14),
       spi = Some (safe_bool_convert s15),
       position_source = Some (str_or_unknown P s16),
       ingestion_time = Some t \<rparr>, k2))))))))))))))))))))))))))"

text \<open>The loop \<^verbatim>\<open>for state in ...: ... flights.append(flight)\<close>.\<close>

fun extract_loop ::
  "platform \<Rightarrow> clock \<Rightarrow> datetime \<Rightarrow> nat \<Rightarrow> json list \<Rightarrow> pyexc + (flight list \<times> nat)" where
  "extract_loop P clk t k [] = Inr ([], k)"
| "extract_loop P clk t k (state # rest) =
     bind_exc (make_flight P clk t k state) (\<lambda>(r, k').
     bind_exc (extract_loop P clk t k' rest) (\<lambda>(fs, k'').
     Inr ((case r of None \<Rightarrow> fs | Some f \<Rightarrow> f # fs), k'')))"

text \<open>
  What a \<^verbatim>\<open>for\<close> loop iterates over: the elements of a list, the characters of a
  string, the keys of a dict; the other values are not iterable.
\<close>

fun iterate :: "json \<Rightarrow> pyexc + json list" where
  "iterate (JArr xs) = Inr xs"
| "iterate (JStr s) = Inr (map (\<lambda>c. JStr [c]) s)"
| "iterate (JObj kv) = Inr (map (\<lambda>(key, v). JStr key) kv)"
| "iterate v = Inl TypeError"

text \<open>\<^verbatim>\<open>data.get('states', [])\<close>: only a dict has \<^verbatim>\<open>get\<close>.\<close>

fun get_states :: "json \<Rightarrow> pyexc + json" where
  "get_states (JObj kv) = Inr (case map_of kv ''states'' of None \<Rightarrow> JArr [] | Some v \<Rightarrow> v)"
| "get_states v = Inl AttributeError"

text \<open>The answer of \<^verbatim>\<open>requests.get\<close>: its status code and what \<^verbatim>\<open>response.json()\<close>
  gives, a decoded value or the decoder's exception.\<close>

record response =
  status_code :: int
  json_body :: "pyexc + json"

text \<open>
  \<^verbatim>\<open>OpenSkyETL.extract\<close>, after the request has been answered with \<open>resp\<close> (the name
  \<open>extract\<close> is a command of Isabelle, hence the suffix). The clock is read once for
  \<^verbatim>\<open>current_time\<close> (reading \<open>0\<close>) before the loop.
\<close>

definition extract_flights :: "platform \<Rightarrow> clock \<Rightarrow> response \<Rightarrow> pyexc + flight list" where
  "extract_flights P clk resp =
     (if status_code resp \<noteq> 200 then Inl (ApiError (status_code resp))
      else
        bind_exc (json_body resp) (\<lambda>data.
        bind_exc (get_states data) (\<lambda>states.
        bind_exc (iterate states) (\<lambda>sts.
        bind_exc (extract_loop P clk (clk 0) 1 sts) (\<lambda>(fs, k). Inr fs)))))"

section \<open>Transform\<close>

text \<open>
  The data frame is the list of its rows. \<^verbatim>\<open>createDataFrame(data, self.schema)\<close>
  verifies every row against the schema, whose only non-nullable field is
  \<^verbatim>\<open>ingestion_time\<close>: a null there raises \<^verbatim>\<open>ValueError\<close>. (The types of the other
  values are fixed by the record.)
\<close>

definition isNotNull :: "'a option \<Rightarrow> bool" where
  "isNotNull x = (x \<noteq> None)"

definition createDataFrame :: "flight list \<Rightarrow> pyexc + flight list" where
  "createDataFrame data =
     (if list_all (\<lambda>r. isNotNull (ingestion_time r)) data then Inr data else Inl ValueError)"

definition coalesce :: "'a option \<Rightarrow> 'a \<Rightarrow> 'a option" where
  "coalesce x d = (case x of None \<Rightarrow> Some d | Some v \<Rightarrow> Some v)"

text \<open>\<^verbatim>\<open>df.na.fill\<close> with the four string columns.\<close>

definition fill_strings :: "flight \<Rightarrow> flight" where
  "fill_strings r = r\<lparr>
     callsign := coalesce (callsign r) ''UNKNOWN'',
     origin_country := coalesce (origin_country r) ''UNKNOWN'',
     squawk := coalesce (squawk r) ''UNKNOWN'',
     position_source := coalesce (position_source r) ''UNKNOWN'' \<rparr>"

text \<open>The columns of type \<^verbatim>\<open>DoubleType\<close>, in the order of the schema.\<close>

datatype dcol =
  Longitude | Latitude | Baro_altitude | Velocity | True_track | Vertical_rate | Geo_altitude

definition numeric_columns :: "dcol list" where
  "numeric_columns =
     [Longitude, Latitude, Baro_altitude, Velocity, True_track, Vertical_rate, Geo_altitude]"

fun get_d :: "dcol \<Rightarrow> flight \<Rightarrow> pyfloat option" where
  "get_d Longitude r = longitude r"
| "get_d Latitude r = latitude r"
| "get_d Baro_altitude r = baro_altitude r"
| "get_d Velocity r = velocity r"
| "get_d True_track r = true_track r"
| "get_d Vertical_rate r = vertical_rate r"
| "get_d Geo_altitude r = geo_altitude r"

fun set_d :: "dcol \<Rightarrow> pyfloat option \<Rightarrow> flight \<Rightarrow> flight" where
  "set_d Longitude x r = r\<lparr>longitude := x\<rparr>"
| "set_d Latitude x r = r\<lparr>latitude := x\<rparr>"
| "set_d Baro_altitude x r = r\<lparr>baro_altitude := x\<rparr>"
| "set_d Velocity x r = r\<lparr>velocity := x\<rparr>"
| "set_d True_track x r = r\<lparr>true_track := x\<rparr>"
| "set_d Vertical_rate x r = r\<lparr>vertical_rate := x\<rparr>"
| "set_d Geo_altitude x r = r\<lparr>geo_altitude := x\<rparr>"

text \<open>
  \<^verbatim>\<open>na.fill({col_name: 0.0})\<close> on a double column: the engine replaces null and NaN
  alike (it fills \<^verbatim>\<open>coalesce(nanvl(col, null), 0.0)\<close>).
\<close>

definition fill_double :: "pyfloat option \<Rightarrow> pyfloat option" where
  "fill_double x = (case x of None \<Rightarrow> Some (Fin 0) | Some NaN \<Rightarrow> Some (Fin 0) | Some v \<Rightarrow> Some v)"

definition fill_column :: "dcol \<Rightarrow> flight list \<Rightarrow> flight list" where
  "fill_column c df = map (\<lambda>r. set_d c (fill_double (get_d c r)) r) df"

definition fill_numeric :: "flight list \<Rightarrow> flight list" where
  "fill_numeric df = fold fill_column numeric_columns df"

text \<open>The two \<^verbatim>\<open>withColumn\<close> calls; \<open>now\<close> is \<^verbatim>\<open>current_timestamp()\<close>, one value for
  the whole query.\<close>

definition backfill :: "datetime \<Rightarrow> flight \<Rightarrow> flight" where
  "backfill now r = r\<lparr>
     time_position := coalesce (time_position r) now,
     last_contact := coalesce (last_contact r) now \<rparr>"

text \<open>The three defaulting steps, in the order of \<^verbatim>\<open>transform\<close>.\<close>

definition defaulting :: "datetime \<Rightarrow> flight list \<Rightarrow> flight list" where
  "defaulting now df = map (backfill now) (fill_numeric (map fill_strings df))"

text \<open>What the three steps do to one row: the loop over the numeric columns fills
  each of the seven in turn.\<close>

definition fill_numeric_row :: "flight \<Rightarrow> flight" where
  "fill_numeric_row r = r\<lparr>
     longitude := fill_double (longitude r),
     latitude := fill_double (latitude r),
     baro_altitude := fill_double (baro_altitude r),
     velocity := fill_double (velocity r),
     true_track := fill_double (true_track r),
     vertical_rate := fill_double (vertical_rate r),
     geo_altitude := fill_double (geo_altitude r) \<rparr>"

definition default_row :: "datetime \<Rightarrow> flight \<Rightarrow> flight" where
  "default_row now r = backfill now (fill_numeric_row (fill_strings r))"

definition valid_row :: "flight \<Rightarrow> bool" where
  "valid_row r =
     (isNotNull (icao24 r) \<and> isNotNull (time_position r) \<and> isNotNull (ingestion_time r))"

definition filter_valid :: "flight list \<Rightarrow> flight list" where
  "filter_valid df = filter valid_row df"

definition transform :: "datetime \<Rightarrow> flight list \<Rightarrow> pyexc + flight list" where
  "transform now data =
     bind_exc (createDataFrame data) (\<lambda>df. Inr (filter_valid (defaulting now df)))"

section \<open>Statistics\<close>

text \<open>
  The aggregates are the engine's. Its order on doubles puts NaN above everything;
  \<^verbatim>\<open>mean\<close>, \<^verbatim>\<open>min\<close>, \<^verbatim>\<open>max\<close> and \<^verbatim>\<open>count\<close> of a column skip its nulls, and the first
  three are null when nothing is left. The mean of finite values is their exact
  quotient here (the engine rounds it to a double).
\<close>

fun fle :: "pyfloat \<Rightarrow> pyfloat \<Rightarrow> bool" where
  "fle NInf y = True"
| "fle x NaN = True"
| "fle (Fin a) (Fin b) = (a \<le> b)"
| "fle (Fin a) PInf = True"
| "fle PInf PInf = True"
| "fle x y = False"

definition non_null :: "'a option list \<Rightarrow> 'a list" where
  "non_null xs = map the (filter isNotNull xs)"

fun fin_val :: "pyfloat \<Rightarrow> rat" where
  "fin_val (Fin q) = q"
| "fin_val f = 0"

definition favg :: "pyfloat list \<Rightarrow> pyfloat" where
  "favg vs =
     (if NaN \<in> set vs \<or> (PInf \<in> set vs \<and> NInf \<in> set vs) then NaN
      else if PInf \<in> set vs then PInf
      else if NInf \<in> set vs then NInf
      else Fin (sum_list (map fin_val vs) / of_nat (length vs)))"

definition agg_mean :: "pyfloat option list \<Rightarrow> pyfloat option" where
  "agg_mean xs = (let vs = non_null xs in if vs = [] then None else Some (favg vs))"

definition agg_min :: "pyfloat option list \<Rightarrow> pyfloat option" where
  "agg_min xs =
     (case non_null xs of [] \<Rightarrow> None
      | v # vs \<Rightarrow> Some (fold (\<lambda>x m. if fle x m then x else m) vs v))"

definition agg_max :: "pyfloat option list \<Rightarrow> pyfloat option" where
  "agg_max xs =
     (case non_null xs of [] \<Rightarrow> None
      | v # vs \<Rightarrow> Some (fold (\<lambda>x m. if fle m x then x else m) vs v))"

definition agg_count :: "pyfloat option list \<Rightarrow> nat" where
  "agg_count xs = length (non_null xs)"

text \<open>
  \<^verbatim>\<open>df.groupBy(column).count()\<close> has one row per distinct value of the column, null
  included, in an order the engine chooses: \<open>rank\<close> stands for that choice (the rows
  come by increasing rank). \<^verbatim>\<open>orderBy(col('count').desc())\<close> then sorts them by
  falling count, and \<^verbatim>\<open>first()\<close> takes the first row, or \<^verbatim>\<open>None\<close> of an empty frame.
\<close>

definition group_count ::
  "(pyfloat option \<Rightarrow> nat) \<Rightarrow> pyfloat option list \<Rightarrow> (pyfloat option \<times> nat) list" where
  "group_count rank xs = map (\<lambda>v. (v, count_list xs v)) (sort_key rank (remdups xs))"

definition order_by_count_desc :: "(pyfloat option \<times> nat) list \<Rightarrow> (pyfloat option \<times> nat) list" where
  "order_by_count_desc gs = sort_key (\<lambda>(v, c). - int c) gs"

definition first_row :: "'a list \<Rightarrow> 'a option" where
  "first_row rows = (case rows of [] \<Rightarrow> None | r # rest \<Rightarrow> Some r)"

definition agg_mode :: "(pyfloat option \<Rightarrow> nat) \<Rightarrow> pyfloat option list \<Rightarrow> pyfloat option" where
  "agg_mode rank xs =
     (case first_row (order_by_count_desc (group_count rank xs)) of
        None \<Rightarrow> None
      | Some (v, c) \<Rightarrow> v)"

record stats =
  stat_mean :: "pyfloat option"
  stat_min :: "pyfloat option"
  stat_max :: "pyfloat option"
  stat_count :: nat
  stat_mode :: "pyfloat option"

definition column_stats :: "(pyfloat option \<Rightarrow> nat) \<Rightarrow> pyfloat option list \<Rightarrow> stats" where
  "column_stats rank xs = \<lparr>
     stat_mean = agg_mean xs,
     stat_min = agg_min xs,
     stat_max = agg_max xs,
     stat_count = agg_count xs,
     stat_mode = agg_mode rank xs \<rparr>"

definition calculate_statistics ::
  "(pyfloat option \<Rightarrow> nat) \<Rightarrow> flight list \<Rightarrow> (dcol \<times> stats) list" where
  "calculate_statistics rank df =
     map (\<lambda>c. (c, column_stats rank (map (get_d c) df))) numeric_columns"

section \<open>The pipeline\<close>

text \<open>
  \<^verbatim>\<open>run_pipeline\<close> reaches its stages through \<^verbatim>\<open>self\<close>; they are a parameter here,
  each returning its value or the exception it raises, so that the control flow of
  the orchestrator is stated for any stages and then for the ones above.
  The run is its trace of events and the exception it ends with, if any.
\<close>

datatype stage = Extract | Transform | Statistics | Count | Load

datatype event =
    Print string
  | Report dcol stats
  | Print_error pyexc
  | Call stage
  | Spark_stop

record ('raw, 'df) stages =
  run_extract :: "pyexc + 'raw list"
  run_transform :: "'raw list \<Rightarrow> pyexc + 'df"
  run_statistics :: "'df \<Rightarrow> pyexc + (dcol \<times> stats) list"
  run_count :: "'df \<Rightarrow> pyexc + nat"
  run_load :: "'df \<Rightarrow> pyexc + unit"

text \<open>The \<^verbatim>\<open>except\<close> clause, which prints and raises again, and the \<^verbatim>\<open>finally\<close>.\<close>

definition failed :: "event list \<Rightarrow> pyexc \<Rightarrow> event list \<times> pyexc option" where
  "failed tr e = (tr @ [Print_error e, Spark_stop], Some e)"

definition finished :: "event list \<Rightarrow> event list \<times> pyexc option" where
  "finished tr = (tr @ [Spark_stop], None)"

definition run_pipeline :: "('raw, 'df) stages \<Rightarrow> event list \<times> pyexc option" where
  "run_pipeline S =
     (let tr0 = [Print ''Starting ETL pipeline...'', Call Extract] in
      case run_extract S of
        Inl e \<Rightarrow> failed tr0 e
      | Inr raw_data \<Rightarrow>
          if raw_data = [] then finished (tr0 @ [Print ''No valid data extracted from API''])
          else
            (let tr1 = tr0 @ [Call Transform] in
             case run_transform S raw_data of
               Inl e \<Rightarrow> failed tr1 e
             | Inr df \<Rightarrow>
                (let tr2 = tr1 @ [Call Statistics] in
                 case run_statistics S df of
                   Inl e \<Rightarrow> failed tr2 e
                 | Inr st \<Rightarrow>
                    (let tr3 = tr2 @ map (\<lambda>(c, x). Report c x) st @ [Call Count] in
                     case run_count S df of
                       Inl e \<Rightarrow> failed tr3 e
                     | Inr n \<Rightarrow>
                        (let tr4 = tr3 @ [Print (''Number of records to be loaded: '' @ show_nat n)] in
                         if 0 < n then
                           (let tr5 = tr4 @ [Print ''Loading data into Cassandra...'', Call Load] in
                            case run_load S df of
                              Inl e \<Rightarrow> failed tr5 e
                            | Inr u \<Rightarrow>
                                finished (tr5 @ [Print ''ETL pipeline completed successfully!'']))
                         else finished (tr4 @ [Print ''No valid records to load'']))))))"

text \<open>
  The stages of \<^verbatim>\<open>OpenSkyETL\<close>: the request is answered with \<open>resp\<close>, the engine's
  clock shows \<open>now\<close> and its grouping follows \<open>rank\<close>, and the write to the store ends
  as \<open>store\<close> says.
\<close>

definition etl_stages ::
  "platform \<Rightarrow> clock \<Rightarrow> response \<Rightarrow> datetime \<Rightarrow> (pyfloat option \<Rightarrow> nat) \<Rightarrow>
   (flight list \<Rightarrow> pyexc + unit) \<Rightarrow> (flight, flight list) stages" where
  "etl_stages P clk resp now rank store = \<lparr>
     run_extract = extract_flights P clk resp,
     run_transform = transform now,
     run_statistics = (\<lambda>df. Inr (calculate_statistics rank df)),
     run_count = (\<lambda>df. Inr (length df)),
     run_load = store \<rparr>"

section \<open>Sample inputs\<close>

text \<open>
  A platform on UTC, used where a statement is evaluated on concrete data. Its
  float parser knows no string and its \<^verbatim>\<open>str\<close> of floats and containers is a
  placeholder; the data below never reach either.
\<close>

definition utc_platform :: platform where
  "utc_platform = \<lparr>
     localtime_int = (\<lambda>n. if - 62135596800 \<le> n \<and> n \<le> 253402300799
                           then Inr (Datetime (n * 1000000)) else Inl ValueError),
     localtime_float = (\<lambda>q. if - 62135596800 \<le> q \<and> q \<le> 253402300799
                             then Inr (Datetime (round (q * 1000000))) else Inl ValueError),
     float_of_str = (\<lambda>s. None),
     str_other = (\<lambda>v. ''?'') \<rparr>"

definition ticking :: clock where
  "ticking k = Datetime (1700000100000000 + int k)"

text \<open>A state vector as the API sends it, with no time of position, and a second one
  with no identifier.\<close>

definition state_a :: "json list" where
  "state_a =
     [JStr ''4b1814'', JStr ''SWR123  '', JStr ''Switzerland'', JNull, JInt 1700000000,
      JFloat (Fin 8.5), JFloat (Fin 47.25), JFloat (Fin 10972.8), JBool False,
      JFloat (Fin 230.5), JFloat (Fin 90), JFloat (Fin 0), JNull, JFloat (Fin 11000),
      JStr ''1000'', JBool False, JInt 1]"

definition state_b :: "json list" where
  "state_b =
     [JNull, JStr ''AB123'', JStr ''France'', JInt 1700000000, JInt 1700000000,
      JNull, JNull, JNull, JNull, JNull, JNull, JNull, JNull, JNull, JNull, JNull, JInt 0]"

text \<open>The first vector again, with a time of position far beyond any \<^verbatim>\<open>time_t\<close>.\<close>

definition state_c :: "json list" where
  "state_c = state_a[3 := JInt (10 ^ 20)]"

definition ok_response :: "json list list \<Rightarrow> response" where
  "ok_response states =
     \<lparr> status_code = 200, json_body = Inr (JObj [(''states'', JArr (map JArr states))]) \<rparr>"

definition flight_a :: flight where
  "flight_a = \<lparr>
     icao24 = Some ''4b1814'',
     callsign = Some ''SWR123'',
     origin_country = Some ''Switzerland'',
     time_position = Some (Datetime 1700000100000001),
     last_contact = Some (Datetime 1700000000000000),
     longitude = Some (Fin 8.5),
     latitude = Some (Fin 47.25),
     baro_altitude = Some (Fin 10972.8),
     on_ground = Some False,
     velocity = Some (Fin 230.5),
     true_track = Some (Fin 90),
     vertical_rate = Some (Fin 0),
     geo_altitude = Some (Fin 11000),
     squawk = Some ''1000'',
     spi = Some False,
     position_source = Some ''1'',
     ingestion_time = Some (Datetime 1700000100000000) \<rparr>"

text \<open>Stages that hand an empty data frame to the orchestrator, whatever was
  extracted.\<close>

definition stub_stages :: "(nat, nat list) stages" where
  "stub_stages = \<lparr>
     run_extract = Inr [1, 2],
     run_transform = (\<lambda>raw. Inr []),
     run_statistics = (\<lambda>df. Inr []),
     run_count = (\<lambda>df. Inr (length df)),
     run_load = (\<lambda>df. Inr ()) \<rparr>"

text \<open>The positions of a state vector that the loop body reads: all but 12.\<close>

definition positions_read :: "nat list" where
  "positions_read = [0, 1, 2, 3, 4, 5, 6, 7, 8, 9, 10, 11, 13, 14, 15, 16]"

text \<open>What the specification calls an identifier that is null or empty, and the raw
  values that are null or a string, as the API sends identifiers.\<close>

definition id_null_or_empty :: "json \<Rightarrow> bool" where
  "id_null_or_empty s = (subscript s 0 = Inr JNull \<or> subscript s 0 = Inr (JStr []))"

definition null_or_str :: "json \<Rightarrow> bool" where
  "null_or_str v = (case v of JNull \<Rightarrow> True | JStr x \<Rightarrow> True | _ \<Rightarrow> False)"

definition id_null_or_str :: "json \<Rightarrow> bool" where
  "id_null_or_str s = (case subscript s 0 of Inr v \<Rightarrow> null_or_str v | Inl e \<Rightarrow> False)"

text \<open>The fields of the dict display from \<^verbatim>\<open>longitude\<close> on, which do not read the
  clock.\<close>

definition flight_tail ::
  "platform \<Rightarrow> datetime \<Rightarrow> json \<Rightarrow> json \<Rightarrow> json \<Rightarrow> json \<Rightarrow> datetime \<Rightarrow> datetime \<Rightarrow> nat \<Rightarrow>
   pyexc + (flight option \<times> nat)" where
  "flight_tail P t state s0 s1 s2 tp lc k2 =
     bind_exc (subscript state 5) (\<lambda>s5.
     bind_exc (safe_float_convert P s5) (\<lambda>lon.
     bind_exc (subscript state 6) (\<lambda>s6.
     bind_exc (safe_float_convert P s6) (\<lambda>lat.
     bind_exc (subscript state 7) (\<lambda>s7.
     bind_exc (safe_float_convert P s7) (\<lambda>baro.
     bind_exc (subscript state 8) (\<lambda>s8.
     bind_exc (subscript state 9) (\<lambda>s9.
     bind_exc (safe_float_convert P s9) (\<lambda>vel.
     bind_exc (subscript state 10) (\<lambda>s10.
     bind_exc (safe_float_convert P s10) (\<lambda>trk.
     bind_exc (subscript state 11) (\<lambda>s11.
     bind_exc (safe_float_convert P s11) (\<lambda>vr.
     bind_exc (subscript state 13) (\<lambda>s13.
     bind_exc (safe_float_convert P s13) (\<lambda>geo.
     bind_exc (subscript state 14) (\<lambda>s14.
     bind_exc (subscript state 15) (\<lambda>s15.
     bind_exc (subscript state 16) (\<lambda>s16.
     Inr (Some \<lparr>
       icao24 = Some (str_of P s0),
       callsign = Some (callsign_of P s1),
       origin_country = Some (str_or_unknown P s2),
       time_position = Some tp,
       last_contact = Some lc,
       longitude = Some lon,
       latitude = Some lat,
       baro_altitude = Some baro,
       on_ground = Some (safe_bool_convert s8),
       velocity = Some vel,
       true_track = Some trk,
       vertical_rate = Some vr,
       geo_altitude = Some geo,
       squawk = Some (str_or_unknown P s14),
       spi = Some (safe_bool_convert s15),
       position_source = Some (str_or_unknown P s16),
       ingestion_time = Some t \<rparr>, k2)))))))))))))))))))"

text \<open>The first vector with an empty country and position source 0 (ADS-B), the
  record it yields, and a clock that agrees with the first one for three readings.\<close>

definition state_d :: "json list" where
  "state_d = state_a[2 := JStr [], 16 := JInt 0]"

definition flight_d :: flight where
  "flight_d = flight_a\<lparr>origin_country := Some ''UNKNOWN'', position_source := Some ''UNKNOWN''\<rparr>"

definition late_clock :: clock where
  "late_clock j = (if j \<le> 2 then ticking j else Datetime 0)"




text \<open>A clock that stands still.\<close>

definition stopped_clock :: clock where
  "stopped_clock j = ticking 0"

text \<open>The test \<^verbatim>\<open>if not state[0]: continue\<close> lets a vector through when its position
  0 is truthy; and the first vector again, with the number 0 for identifier.\<close>

definition id_truthy :: "json \<Rightarrow> bool" where
  "id_truthy s = (case subscript s 0 of Inr v \<Rightarrow> truthy v | Inl e \<Rightarrow> False)"

definition state_z :: "json list" where
  "state_z = state_a[0 := JInt 0]"

section \<open>Properties of the field coercions\<close>

text \<open>An int of 1025 bits or more is beyond every double.\<close>

lemma float_of_int_overflow:
  assumes big: "2 ^ 1024 \<le> \<bar>n\<bar>"
  shows "float_of_int n = Inl OverflowError"
proof -
  define a where "a = \<bar>n\<bar>"
  define b where "b = nat (bitlen a)"
  have a_pos: "0 < a" using big by (simp add: a_def)
  have bnd: "2 ^ nat (bitlen a - 1) \<le> a" "a < 2 ^ nat (bitlen a)"
    using bitlen_bounds [OF a_pos] by auto
  have "(2::int) ^ 1024 < 2 ^ b"
    using big bnd(2) by (simp add: a_def b_def)
  then have "1024 < b" by (rule power_less_imp_less_exp [rotated]) simp
  then have bl: "1025 \<le> bitlen a" by (simp add: b_def)
  define e where "e = nat (bitlen a - 53)"
  have e_pos: "0 < bitlen a - 53"
    using bl by simp
  have split: "nat (bitlen a - 1) = 52 + e"
    using bl by (simp add: e_def)
  have lo: "(2::int) ^ 52 * 2 ^ e \<le> a"
    using bnd(1) by (simp add: split power_add)
  have q_lo: "(2::int) ^ 52 \<le> a div 2 ^ e"
  proof -
    have "(2::int) ^ 52 = (2 ^ 52 * 2 ^ e) div 2 ^ e" by simp
    also have "\<dots> \<le> a div 2 ^ e" using lo by (rule zdiv_mono1) simp
    finally show ?thesis .
  qed
  have m_lo: "(2::int) ^ 1024 \<le> q' * 2 ^ e" if "a div 2 ^ e \<le> q'" for q'
  proof -
    have "(2::int) ^ 1024 \<le> 2 ^ (52 + e)"
      using bl by (intro power_increasing) (simp_all add: e_def)
    also have "\<dots> = 2 ^ 52 * 2 ^ e" by (simp add: power_add)
    also have "\<dots> \<le> q' * 2 ^ e"
      using q_lo that by (intro mult_right_mono) simp_all
    finally show ?thesis .
  qed
  show ?thesis
    using e_pos m_lo [of "a div 2 ^ e"] m_lo [of "a div 2 ^ e + 1"]
    by (simp add: float_of_int_def Let_def a_def [symmetric] e_def [symmetric])
qed

text \<open>
  Claim C3 (the three coercions return a default for every missing or malformed
  scalar and the parsed value otherwise). The code does not: \<^verbatim>\<open>safe_float_convert\<close>
  and \<^verbatim>\<open>safe_timestamp_convert\<close> catch \<^verbatim>\<open>ValueError\<close> and \<^verbatim>\<open>TypeError\<close> only, so
  the \<^verbatim>\<open>OverflowError\<close> of \<^verbatim>\<open>float(2**1024)\<close> and of
  \<^verbatim>\<open>datetime.fromtimestamp(10**20)\<close> leaves them: neither the default nor a value is
  returned.
\<close>

theorem coercions_let_overflow_escape:
  "safe_float_convert P (JInt (2 ^ 1024)) = Inl OverflowError \<and>
   safe_timestamp_convert P clk k (JInt (10 ^ 20)) = Inl OverflowError"
proof
  have "float_of_int (2 ^ 1024) = Inl OverflowError"
    by (rule float_of_int_overflow) simp
  then show "safe_float_convert P (JInt (2 ^ 1024)) = Inl OverflowError"
    by (simp add: safe_float_convert_def caught_def)
  show "safe_timestamp_convert P clk k (JInt (10 ^ 20)) = Inl OverflowError"
    by (simp add: safe_timestamp_convert_def in_time_t_def caught_def)
qed

section \<open>Properties of extraction\<close>

text \<open>
  Claim C5 (extraction fails if and only if the status is not success; no scalar of
  the payload can make it fail). With status 200 and one well-formed state vector
  whose time of position is \<open>10 ^ 20\<close>, \<^verbatim>\<open>extract\<close> ends with the
  \<^verbatim>\<open>OverflowError\<close> that \<^verbatim>\<open>safe_timestamp_convert\<close> lets through.
\<close>

theorem extract_fails_on_status_200:
  "extract_flights P clk (ok_response [state_c]) = Inl OverflowError"
  by (simp add: extract_flights_def ok_response_def state_c_def state_a_def bind_exc_def
      make_flight_def safe_timestamp_convert_def in_time_t_def caught_def)

section \<open>Properties of the transformer\<close>

lemma coalesce_idem: "coalesce (coalesce x d) d' = coalesce x d"
  by (simp add: coalesce_def split: option.splits)

lemma fill_double_idem: "fill_double (fill_double x) = fill_double x"
  by (simp add: fill_double_def split: option.splits pyfloat.splits)

lemma fill_numeric_map: "fill_numeric df = map fill_numeric_row df"
  by (simp add: fill_numeric_def numeric_columns_def fill_column_def fill_numeric_row_def o_def)

lemma defaulting_map: "defaulting now df = map (default_row now) df"
  by (simp add: defaulting_def fill_numeric_map default_row_def o_def)

lemma default_row_idem: "default_row now' (default_row now r) = default_row now r"
  by (simp add: default_row_def backfill_def fill_numeric_row_def fill_strings_def
      coalesce_idem fill_double_idem)

lemma default_row_keys:
  "icao24 (default_row now r) = icao24 r"
  "ingestion_time (default_row now r) = ingestion_time r"
  "time_position (default_row now r) \<noteq> None"
  by (simp_all add: default_row_def backfill_def fill_numeric_row_def fill_strings_def
      coalesce_def split: option.splits)

lemma default_row_flight_a: "default_row now flight_a = flight_a"
  by (simp add: default_row_def backfill_def fill_numeric_row_def fill_strings_def
      coalesce_def fill_double_def flight_a_def)

text \<open>
  Claim C6: the string defaulting, the numeric defaulting and the timestamp
  backfill, applied a second time (at whatever later time \<open>now'\<close>), leave the batch
  as the first application made it.
\<close>

theorem defaulting_idempotent:
  "defaulting now' (defaulting now df) = defaulting now df"
  by (simp add: defaulting_map default_row_idem)

theorem defaulting_idempotent_witness:
  "defaulting (Datetime 9) (defaulting (Datetime 5) [flight_a\<lparr>callsign := None, velocity := Some NaN, last_contact := None\<rparr>])
   = [flight_a\<lparr>callsign := Some ''UNKNOWN'', velocity := Some (Fin 0), last_contact := Some (Datetime 5)\<rparr>]"
  using defaulting_idempotent [of "Datetime 9" "Datetime 5"
      "[flight_a\<lparr>callsign := None, velocity := Some NaN, last_contact := None\<rparr>]"]
  by (simp add: defaulting_map default_row_def backfill_def fill_numeric_row_def fill_strings_def
      coalesce_def fill_double_def flight_a_def)



text \<open>
  Claim C7 says that \<^verbatim>\<open>transform\<close> has no error condition. It has one: the schema
  declares \<^verbatim>\<open>ingestion_time\<close> non-nullable, so \<^verbatim>\<open>createDataFrame\<close> rejects a batch
  with a record that lacks it.
\<close>

theorem transform_can_fail:
  "transform (Datetime 5) [flight_a\<lparr>ingestion_time := None\<rparr>] = Inl ValueError"
  by (simp add: transform_def bind_exc_def createDataFrame_def isNotNull_def)

text \<open>
  Claim C7, amended: \<^verbatim>\<open>transform\<close> fails exactly when a record of the batch has a
  null \<^verbatim>\<open>ingestion_time\<close>; otherwise it returns the filtered, defaulted batch,
  which has at most as many records as the input.
\<close>

theorem transform_fails_or_shrinks:
  "transform now data =
     (if list_all (\<lambda>r. ingestion_time r \<noteq> None) data
      then Inr (filter_valid (defaulting now data)) else Inl ValueError)
   \<and> length (filter_valid (defaulting now data)) \<le> length data"
  by (simp add: transform_def bind_exc_def createDataFrame_def isNotNull_def filter_valid_def
      defaulting_map le_trans [OF length_filter_le])

theorem transform_fails_or_shrinks_witness:
  "transform (Datetime 5) [flight_a\<lparr>icao24 := None\<rparr>, flight_a] = Inr [flight_a]
   \<and> length [flight_a] \<le> length [flight_a\<lparr>icao24 := None\<rparr>, flight_a]"
  using transform_fails_or_shrinks [of "Datetime 5" "[flight_a\<lparr>icao24 := None\<rparr>, flight_a]"]
  by (simp add: filter_valid_def valid_row_def isNotNull_def defaulting_map default_row_keys
      default_row_flight_a)
    (simp add: flight_a_def)

section \<open>Properties of the orchestrator\<close>

lemma extract_empty_states:
  "extract_flights P clk (ok_response []) = Inr []"
  by (simp add: extract_flights_def ok_response_def bind_exc_def)

text \<open>
  Claim C9: when extraction yields an empty batch the run consists of the call of
  Extract, the message and the release of the session, and ends without error, so
  Transform, Statistics and Load are not called; and when the transformed batch
  counts zero records, Load is not called.
\<close>

theorem pipeline_short_circuits:
  "(run_extract S = Inr [] \<longrightarrow>
      run_pipeline S =
        ([Print ''Starting ETL pipeline...'', Call Extract,
          Print ''No valid data extracted from API'', Spark_stop], None))
   \<and> (run_extract S = Inr raw \<and> run_transform S raw = Inr df \<and> run_count S df = Inr 0 \<longrightarrow>
        Call Load \<notin> set (fst (run_pipeline S)))"
  by (auto simp: run_pipeline_def finished_def failed_def Let_def split: sum.splits)

theorem pipeline_short_circuits_witness:
  "run_pipeline (etl_stages utc_platform ticking (ok_response []) (Datetime 5) (\<lambda>v. 0) (\<lambda>df. Inr ())) =
     ([Print ''Starting ETL pipeline...'', Call Extract,
       Print ''No valid data extracted from API'', Spark_stop], None)
   \<and> Call Load \<notin> set (fst (run_pipeline stub_stages))"
proof -
  have e: "run_extract (etl_stages utc_platform ticking (ok_response []) (Datetime 5) (\<lambda>v. 0) (\<lambda>df. Inr ())) = Inr []"
    by (simp add: etl_stages_def extract_empty_states)
  have s: "run_extract stub_stages = Inr [1, 2] \<and> run_transform stub_stages [1, 2] = Inr []
      \<and> run_count stub_stages [] = Inr 0"
    by (simp add: stub_stages_def)
  show ?thesis
    using e s
      pipeline_short_circuits [of "etl_stages utc_platform ticking (ok_response []) (Datetime 5) (\<lambda>v. 0) (\<lambda>df. Inr ())" "[]" "[]", THEN conjunct1]
      pipeline_short_circuits [of stub_stages "[1, 2]" "[]", THEN conjunct2]
    by blast
qed

section \<open>Properties of the record extractor\<close>

lemma make_flight_split:
  "make_flight P clk t k state =
     bind_exc (subscript state 0) (\<lambda>s0.
     if \<not> truthy s0 then Inr (None, k) else
     bind_exc (subscript state 1) (\<lambda>s1.
     bind_exc (subscript state 2) (\<lambda>s2.
     bind_exc (subscript state 3) (\<lambda>s3.
     bind_exc (safe_timestamp_convert P clk k s3) (\<lambda>(tp, k1).
     bind_exc (subscript state 4) (\<lambda>s4.
     bind_exc (safe_timestamp_convert P clk k1 s4) (\<lambda>(lc, k2).
     flight_tail P t state s0 s1 s2 tp lc k2)))))))"
  unfolding make_flight_def flight_tail_def by (rule refl)

lemma bind_exc_Inr: "bind_exc m f = Inr y \<longleftrightarrow> (\<exists>x. m = Inr x \<and> f x = Inr y)"
  by (cases m) (simp_all add: bind_exc_def)

lemma make_flight_skip:
  "make_flight P clk t k s = Inr (None, k1) \<Longrightarrow> \<exists>v. subscript s 0 = Inr v \<and> \<not> truthy v \<and> k1 = k"
  by (auto simp: make_flight_def bind_exc_Inr split: if_splits)

lemma make_flight_keep:
  assumes "make_flight P clk t k s = Inr (Some f, k1)"
  shows "\<exists>v0 v1 v2 v13 v14 v16 g.
     subscript s 0 = Inr v0 \<and> truthy v0 \<and> icao24 f = Some (str_of P v0) \<and>
     subscript s 1 = Inr v1 \<and> callsign f = Some (callsign_of P v1) \<and>
     subscript s 2 = Inr v2 \<and> origin_country f = Some (str_or_unknown P v2) \<and>
     subscript s 13 = Inr v13 \<and> safe_float_convert P v13 = Inr g \<and> geo_altitude f = Some g \<and>
     subscript s 14 = Inr v14 \<and> squawk f = Some (str_or_unknown P v14) \<and>
     subscript s 16 = Inr v16 \<and> position_source f = Some (str_or_unknown P v16) \<and>
     ingestion_time f = Some t"
  using assms by (auto simp: make_flight_def bind_exc_Inr split: if_splits)

lemma truthy_null_or_str: "null_or_str v \<Longrightarrow> truthy v \<longleftrightarrow> v \<noteq> JNull \<and> v \<noteq> JStr []"
  by (cases v) (simp_all add: null_or_str_def)

lemma extract_loop_kept:
  "extract_loop P clk t k states = Inr (fs, k') \<Longrightarrow>
   list_all2 (\<lambda>f s. \<exists>j j'. make_flight P clk t j s = Inr (Some f, j')) fs
     (filter (\<lambda>s. \<exists>v. subscript s 0 = Inr v \<and> truthy v) states)"
proof (induction states arbitrary: k fs)
  case Nil
  then show ?case by simp
next
  case (Cons s rest)
  let ?kept = "\<lambda>s. \<exists>v. subscript s 0 = Inr v \<and> truthy v"
  from Cons.prems obtain r k1 fs' where
    m: "make_flight P clk t k s = Inr (r, k1)" and
    l: "extract_loop P clk t k1 rest = Inr (fs', k')" and
    fs: "fs = (case r of None \<Rightarrow> fs' | Some f \<Rightarrow> f # fs')"
    by (auto simp: bind_exc_Inr)
  note ih = Cons.IH [OF l]
  show ?case
  proof (cases r)
    case None
    with m make_flight_skip [of P clk t k s k1] have "\<not> ?kept s" by auto
    then have "filter ?kept (s # rest) = filter ?kept rest" by simp
    with ih fs None show ?thesis by simp
  next
    case (Some f)
    with m make_flight_keep [of P clk t k s f k1] have "?kept s" by auto
    then have "filter ?kept (s # rest) = s # filter ?kept rest" by simp
    moreover have "\<exists>j j'. make_flight P clk t j s = Inr (Some f, j')"
      using m Some by blast
    ultimately show ?thesis using ih fs Some by simp
  qed
qed

text \<open>
  When the identifier of every state vector is null or a string, as the API sends it,
  the vectors kept are those whose identifier is neither null nor empty.
\<close>

lemma extract_loop_null_or_str:
  assumes "extract_loop P clk t k states = Inr (fs, k')"
    and "list_all id_null_or_str states"
  shows "list_all2 (\<lambda>f s. \<exists>j j'. make_flight P clk t j s = Inr (Some f, j')) fs
     (filter (\<lambda>s. \<not> id_null_or_empty s) states)"
proof -
  have "(\<exists>v. subscript s 0 = Inr v \<and> truthy v) \<longleftrightarrow> \<not> id_null_or_empty s" if "s \<in> set states" for s
  proof -
    from that assms(2) have "id_null_or_str s" by (simp add: list_all_iff)
    then obtain v where v: "subscript s 0 = Inr v" "null_or_str v"
      by (auto simp: id_null_or_str_def split: sum.splits)
    then show ?thesis using truthy_null_or_str [OF v(2)] by (auto simp: id_null_or_empty_def)
  qed
  then have "filter (\<lambda>s. \<exists>v. subscript s 0 = Inr v \<and> truthy v) states
     = filter (\<lambda>s. \<not> id_null_or_empty s) states"
    by (intro filter_cong) auto
  with extract_loop_kept [OF assms(1)] show ?thesis by simp
qed

lemma stc_clock:
  "clk' k = clk k \<Longrightarrow> safe_timestamp_convert P clk' k v = safe_timestamp_convert P clk k v"
  by (simp add: safe_timestamp_convert_def split: sum.splits)

lemma stc_ticks:
  "safe_timestamp_convert P clk k v = Inr (tp, k1) \<Longrightarrow> k1 = k \<or> k1 = Suc k"
  by (auto simp: safe_timestamp_convert_def split: if_splits sum.splits)

lemma make_flight_positions:
  assumes "list_all (\<lambda>i. subscript s i = subscript s' i) positions_read"
  shows "make_flight P clk t k s = make_flight P clk t k s'"
  using assms by (simp add: positions_read_def make_flight_def cong: if_cong)

lemma make_flight_clock:
  assumes "clk' k = clk k" "clk' (Suc k) = clk (Suc k)"
  shows "make_flight P clk' t k s = make_flight P clk t k s"
proof -
  have *: "safe_timestamp_convert P clk' j v = safe_timestamp_convert P clk j v"
    if "j = k \<or> j = Suc k" for j v
    using that assms by (auto intro: stc_clock)
  have second: "\<forall>v. safe_timestamp_convert P clk' k1 v = safe_timestamp_convert P clk k1 v"
    if "safe_timestamp_convert P clk k u = Inr (tp, k1)" for u tp k1
    using stc_ticks [OF that] by (simp add: *)
  show ?thesis
    unfolding make_flight_split
    by (auto simp: bind_exc_def * split: sum.splits dest!: second)
qed

text \<open>
  Claim C10, amended. The outcome of the loop body for a state vector is determined
  by its positions 0 to 11 and 13 to 16, the ingestion timestamp and the next two
  readings of the clock; position 12 is not read, and \<^verbatim>\<open>geo_altitude\<close> is the
  coercion of position 13.
\<close>

theorem record_ignores_position_12:
  assumes "list_all (\<lambda>i. subscript s i = subscript s' i) positions_read"
    and "clk' k = clk k" and "clk' (Suc k) = clk (Suc k)"
  shows "make_flight P clk' t k s' = make_flight P clk t k s
    \<and> (make_flight P clk t k s = Inr (Some f, j) \<longrightarrow>
         (\<exists>v g. subscript s 13 = Inr v \<and> safe_float_convert P v = Inr g \<and> geo_altitude f = Some g))"
  using make_flight_positions [OF assms(1)] make_flight_clock [OF assms(2,3)]
    make_flight_keep [of P clk t k s f j]
  by auto

lemma digit_char_1: "digit_char (Suc 0) = CHR ''1''"
  by code_simp

lemmas eval_defs =
  bind_exc_def make_flight_def safe_timestamp_convert_def safe_float_convert_def
  safe_bool_convert_def str_or_unknown_def callsign_of_def utc_platform_def ticking_def
  caught_def in_time_t_def strip_def is_space_def show_int_def digit_char_1

lemma make_flight_state_a:
  "make_flight utc_platform ticking (ticking 0) (Suc 0) (JArr state_a) = Inr (Some flight_a, 2)"
  by (simp add: eval_defs state_a_def flight_a_def)

lemma make_flight_state_b:
  "make_flight P clk t k (JArr state_b) = Inr (None, k)"
  by (simp add: make_flight_def bind_exc_def state_b_def)

lemma make_flight_state_d:
  "make_flight utc_platform ticking (ticking 0) (Suc 0) (JArr state_d) = Inr (Some flight_d, 2)"
  by (simp add: eval_defs state_d_def state_a_def flight_d_def flight_a_def)

lemma falsy_iff:
  "\<not> truthy v \<longleftrightarrow>
     v = JNull \<or> v = JBool False \<or> v = JInt 0 \<or> v = JFloat (Fin 0) \<or> v = JStr [] \<or>
     v = JArr [] \<or> v = JObj []"
  by (cases v) auto

lemma bind_exc_Inl:
  "bind_exc m f = Inl e \<longleftrightarrow> m = Inl e \<or> (\<exists>x. m = Inr x \<and> f x = Inl e)"
  by (cases m) (simp_all add: bind_exc_def)

lemma id_truthy_iff: "id_truthy s \<longleftrightarrow> (\<exists>v. subscript s 0 = Inr v \<and> truthy v)"
  by (simp add: id_truthy_def split: sum.splits)

lemma extract_loop_raises:
  "extract_loop P clk t k states = Inl e \<Longrightarrow>
   \<exists>s \<in> set states. \<exists>j. make_flight P clk t j s = Inl e"
proof (induction states arbitrary: k)
  case Nil
  then show ?case by simp
next
  case (Cons s rest)
  from Cons.prems consider
    (here) "make_flight P clk t k s = Inl e"
    | (later) r k1 where "make_flight P clk t k s = Inr (r, k1)"
        "extract_loop P clk t k1 rest = Inl e"
    by (auto simp: bind_exc_Inl)
  then show ?case
  proof cases
    case here
    then show ?thesis by auto
  next
    case later
    from Cons.IH [OF later(2)] show ?thesis by auto
  qed
qed

lemma make_flight_state_z:
  "make_flight P clk t k (JArr state_z) = Inr (None, k)"
  by (simp add: make_flight_def bind_exc_def state_z_def state_a_def)

text \<open>
  Claim C2 says that only the vectors with a null or empty identifier are dropped.
  The test is \<^verbatim>\<open>if not state[0]\<close>, so a vector whose identifier is the number 0
  is dropped as well.
\<close>

theorem zero_identifier_dropped:
  "extract_loop utc_platform ticking (ticking 0) (Suc 0) [JArr state_z] = Inr ([], Suc 0)
   \<and> subscript (JArr state_z) 0 = Inr (JInt 0)
   \<and> \<not> id_null_or_empty (JArr state_z)"
  by (simp add: make_flight_state_z bind_exc_def id_null_or_empty_def)
    (simp add: state_z_def state_a_def)

text \<open>
  Claim C2, amended. For every sequence of state vectors, the loop of \<^verbatim>\<open>extract\<close>
  either ends with the exception that the body raised for one of the vectors, or
  returns, in order, exactly one record for each vector whose position 0 is truthy,
  made from that vector, and none for the others: the vectors dropped are those
  whose position 0 is falsy, that is null, false, a zero, or an empty string, list
  or dict.
\<close>

theorem extract_drops_falsy_identifiers:
  "(case extract_loop P clk t k states of
      Inl e \<Rightarrow> \<exists>s \<in> set states. \<exists>j. make_flight P clk t j s = Inl e
    | Inr (fs, k') \<Rightarrow>
        list_all2 (\<lambda>f s. \<exists>j j'. make_flight P clk t j s = Inr (Some f, j')) fs
          (filter id_truthy states)
        \<and> length fs = length (filter id_truthy states))
   \<and> (id_truthy s \<longleftrightarrow> (\<exists>v. subscript s 0 = Inr v \<and> truthy v))
   \<and> (\<not> truthy v \<longleftrightarrow>
         v = JNull \<or> v = JBool False \<or> v = JInt 0 \<or> v = JFloat (Fin 0) \<or> v = JStr [] \<or>
         v = JArr [] \<or> v = JObj [])"
proof -
  have flt: "filter id_truthy states = filter (\<lambda>s. \<exists>v. subscript s 0 = Inr v \<and> truthy v) states"
    by (rule filter_cong) (simp_all add: id_truthy_iff)
  have loop: "case extract_loop P clk t k states of
      Inl e \<Rightarrow> \<exists>s \<in> set states. \<exists>j. make_flight P clk t j s = Inl e
    | Inr (fs, k') \<Rightarrow>
        list_all2 (\<lambda>f s. \<exists>j j'. make_flight P clk t j s = Inr (Some f, j')) fs
          (filter id_truthy states)
        \<and> length fs = length (filter id_truthy states)"
  proof (cases "extract_loop P clk t k states")
    case (Inl e)
    with extract_loop_raises [OF Inl] show ?thesis by simp
  next
    case (Inr p)
    obtain fs k' where p: "p = (fs, k')" by (cases p)
    from extract_loop_kept [OF Inr [unfolded p]] flt
    have "list_all2 (\<lambda>f s. \<exists>j j'. make_flight P clk t j s = Inr (Some f, j')) fs
        (filter id_truthy states)" by simp
    then show ?thesis
      using list_all2_lengthD by (simp add: Inr p) blast
  qed
  from loop id_truthy_iff [of s] falsy_iff [of v] show ?thesis by (intro conjI)
qed

theorem extract_drops_falsy_identifiers_witness:
  "extract_loop utc_platform ticking (ticking 0) (Suc 0) [JArr state_a, JArr state_b, JArr state_z]
     = Inr ([flight_a], 2)
   \<and> filter id_truthy [JArr state_a, JArr state_b, JArr state_z] = [JArr state_a]
   \<and> list_all2 (\<lambda>f s. \<exists>j j'. make_flight utc_platform ticking (ticking 0) j s = Inr (Some f, j'))
        [flight_a] [JArr state_a]"
proof -
  have l: "extract_loop utc_platform ticking (ticking 0) (Suc 0)
      [JArr state_a, JArr state_b, JArr state_z] = Inr ([flight_a], 2)"
    by (simp add: make_flight_state_a make_flight_state_b make_flight_state_z bind_exc_def)
  have f: "filter id_truthy [JArr state_a, JArr state_b, JArr state_z] = [JArr state_a]"
    by (simp add: id_truthy_def state_a_def state_b_def state_z_def)
  from extract_drops_falsy_identifiers [where P = utc_platform and clk = ticking and t = "ticking 0" and k = "Suc 0"
      and states = "[JArr state_a, JArr state_b, JArr state_z]", THEN conjunct1]
    l f
  show ?thesis by simp
qed

text \<open>
  Claim C4, amended. The callsign is \<^verbatim>\<open>str\<close> of the raw value, trimmed, and
  origin country, squawk and position source are \<^verbatim>\<open>str\<close> of the raw value; each
  is replaced by \<open>UNKNOWN\<close> exactly when the raw value is falsy, that is null, false,
  a zero, or an empty string, list or dict.
\<close>

theorem string_fields_default_when_falsy:
  assumes "make_flight P clk t k s = Inr (Some f, k1)"
  shows "(\<exists>v1 v2 v14 v16.
      subscript s 1 = Inr v1 \<and> subscript s 2 = Inr v2 \<and>
      subscript s 14 = Inr v14 \<and> subscript s 16 = Inr v16 \<and>
      callsign f = Some (if truthy v1 then strip (str_of P v1) else ''UNKNOWN'') \<and>
      origin_country f = Some (if truthy v2 then str_of P v2 else ''UNKNOWN'') \<and>
      squawk f = Some (if truthy v14 then str_of P v14 else ''UNKNOWN'') \<and>
      position_source f = Some (if truthy v16 then str_of P v16 else ''UNKNOWN''))
    \<and> (\<not> truthy v \<longleftrightarrow>
         v = JNull \<or> v = JBool False \<or> v = JInt 0 \<or> v = JFloat (Fin 0) \<or> v = JStr [] \<or>
         v = JArr [] \<or> v = JObj [])"
proof -
  from make_flight_keep [OF assms] obtain v1 v2 v14 v16 where
    "subscript s 1 = Inr v1" "callsign f = Some (callsign_of P v1)"
    "subscript s 2 = Inr v2" "origin_country f = Some (str_or_unknown P v2)"
    "subscript s 14 = Inr v14" "squawk f = Some (str_or_unknown P v14)"
    "subscript s 16 = Inr v16" "position_source f = Some (str_or_unknown P v16)"
    by blast
  then show ?thesis
    using falsy_iff [of v] by (simp add: callsign_of_def str_or_unknown_def)
qed

theorem string_fields_default_when_falsy_witness:
  "make_flight utc_platform ticking (ticking 0) (Suc 0) (JArr state_a) = Inr (Some flight_a, 2)
   \<and> callsign flight_a = Some ''SWR123'' \<and> origin_country flight_a = Some ''Switzerland''
   \<and> squawk flight_a = Some ''1000'' \<and> position_source flight_a = Some ''1''"
  using string_fields_default_when_falsy [OF make_flight_state_a, of JNull] make_flight_state_a
  by (simp add: state_a_def strip_def is_space_def show_int_def digit_char_1)

text \<open>
  Claim C4 says that origin country, squawk and position source are defaulted only
  when null. An empty country and the position source 0 are not null and are
  replaced all the same.
\<close>

theorem empty_country_and_zero_source_defaulted:
  "make_flight utc_platform ticking (ticking 0) (Suc 0) (JArr state_d) = Inr (Some flight_d, 2)
   \<and> origin_country flight_d = Some ''UNKNOWN'' \<and> state_d ! 2 = JStr [] \<and> JStr [] \<noteq> JNull
   \<and> position_source flight_d = Some ''UNKNOWN'' \<and> state_d ! 16 = JInt 0 \<and> JInt 0 \<noteq> JNull"
  by (simp add: make_flight_state_d) (simp add: flight_d_def state_d_def state_a_def)

theorem record_ignores_position_12_witness:
  "make_flight utc_platform late_clock (ticking 0) (Suc 0) (JArr (state_a[12 := JArr [JInt 7]]))
     = make_flight utc_platform ticking (ticking 0) (Suc 0) (JArr state_a)
   \<and> geo_altitude flight_a = Some (Fin 11000)"
proof -
  have p: "list_all (\<lambda>i. subscript (JArr state_a) i = subscript (JArr (state_a[12 := JArr [JInt 7]])) i)
      positions_read"
    by (simp add: positions_read_def state_a_def)
  have c: "late_clock (Suc 0) = ticking (Suc 0)" "late_clock (Suc (Suc 0)) = ticking (Suc (Suc 0))"
    by (simp_all add: late_clock_def)
  from record_ignores_position_12 [where s = "JArr state_a" and s' = "JArr (state_a[12 := JArr [JInt 7]])"
      and clk = ticking and clk' = late_clock and k = "Suc 0" and P = utc_platform
      and t = "ticking 0" and f = flight_a and j = 2, OF p c] make_flight_state_a
  show ?thesis by (auto simp: state_a_def utc_platform_def safe_float_convert_def)
qed

text \<open>
  Claim C10 says that the record is determined by the positions read and the
  ingestion timestamp alone. It also depends on the clock: for the same vector, with
  no time of position, and the same ingestion timestamp, two clocks give two records.
\<close>

theorem record_depends_on_clock:
  "make_flight utc_platform stopped_clock (ticking 0) (Suc 0) (JArr state_a)
     \<noteq> make_flight utc_platform ticking (ticking 0) (Suc 0) (JArr state_a)"
  by (simp add: eval_defs stopped_clock_def state_a_def)

section \<open>Properties of the statistics\<close>



















end
